theory Spec2Isabelle
  imports Main "HOL-Library.Word"
begin

section \<open>Python values used by server.py\<close>

text \<open>
  A Python \<open>str\<close> is a sequence of Unicode code points and \<open>len\<close> counts code points;
  a \<open>bytes\<close> object is a sequence of octets. String literals of the source are written
  with \<open>lit\<close>.
\<close>

type_synonym pystr = "nat list"
type_synonym byte = "8 word"
type_synonym bytes = "byte list"

definition lit :: "string \<Rightarrow> pystr" where
  "lit s = map of_char s"

datatype error =
    UnicodeDecodeError
  | UnicodeEncodeError
  | TypeError
  | ValueError
  | IndexError
  | AttributeError
  | KeyError
  | OverflowError

subsection \<open>\<open>str.encode('utf-8')\<close> and \<open>bytes.decode()\<close>\<close>

definition utf8_encode_cp :: "nat \<Rightarrow> bytes option" where
  "utf8_encode_cp c =
     (if c < 0x80 then Some [of_nat c]
      else if c < 0x800 then Some [of_nat (0xC0 + c div 64), of_nat (0x80 + c mod 64)]
      else if 0xD800 \<le> c \<and> c \<le> 0xDFFF then None
      else if c < 0x10000 then
        Some [of_nat (0xE0 + c div 4096), of_nat (0x80 + (c div 64) mod 64),
              of_nat (0x80 + c mod 64)]
      else if c < 0x110000 then
        Some [of_nat (0xF0 + c div 262144), of_nat (0x80 + (c div 4096) mod 64),
              of_nat (0x80 + (c div 64) mod 64), of_nat (0x80 + c mod 64)]
      else None)"

fun str_encode :: "pystr \<Rightarrow> error + bytes" where
  "str_encode [] = Inr []"
| "str_encode (c # cs) =
     (case utf8_encode_cp c of
        None \<Rightarrow> Inl UnicodeEncodeError
      | Some bs \<Rightarrow> (case str_encode cs of Inl e \<Rightarrow> Inl e | Inr rest \<Rightarrow> Inr (bs @ rest)))"

definition is_cont :: "byte \<Rightarrow> bool" where
  "is_cont b = (0x80 \<le> unat b \<and> unat b \<le> 0xBF)"

definition cont_bits :: "byte \<Rightarrow> nat" where
  "cont_bits b = unat b - 0x80"

fun bytes_decode :: "bytes \<Rightarrow> error + pystr" where
  "bytes_decode [] = Inr []"
| "bytes_decode (b # bs) =
     (let n = unat b in
      if n < 0x80 then
        (case bytes_decode bs of Inl e \<Rightarrow> Inl e | Inr s \<Rightarrow> Inr (n # s))
      else if 0xC2 \<le> n \<and> n \<le> 0xDF then
        (case bs of
           b1 # r \<Rightarrow>
             if is_cont b1 then
               (case bytes_decode r of Inl e \<Rightarrow> Inl e
                | Inr s \<Rightarrow> Inr (((n - 0xC0) * 64 + cont_bits b1) # s))
             else Inl UnicodeDecodeError
         | _ \<Rightarrow> Inl UnicodeDecodeError)
      else if 0xE0 \<le> n \<and> n \<le> 0xEF then
        (case bs of
           b1 # b2 # r \<Rightarrow>
             (let c = (n - 0xE0) * 4096 + cont_bits b1 * 64 + cont_bits b2 in
              if is_cont b1 \<and> is_cont b2 \<and> 0x800 \<le> c \<and> \<not> (0xD800 \<le> c \<and> c \<le> 0xDFFF) then
                (case bytes_decode r of Inl e \<Rightarrow> Inl e | Inr s \<Rightarrow> Inr (c # s))
              else Inl UnicodeDecodeError)
         | _ \<Rightarrow> Inl UnicodeDecodeError)
      else if 0xF0 \<le> n \<and> n \<le> 0xF4 then
        (case bs of
           b1 # b2 # b3 # r \<Rightarrow>
             (let c = (n - 0xF0) * 262144 + cont_bits b1 * 4096 + cont_bits b2 * 64
                      + cont_bits b3 in
              if is_cont b1 \<and> is_cont b2 \<and> is_cont b3 \<and> 0x10000 \<le> c \<and> c \<le> 0x10FFFF then
                (case bytes_decode r of Inl e \<Rightarrow> Inl e | Inr s \<Rightarrow> Inr (c # s))
              else Inl UnicodeDecodeError)
         | _ \<Rightarrow> Inl UnicodeDecodeError)
      else Inl UnicodeDecodeError)"

subsection \<open>\<open>str.startswith\<close>, \<open>in\<close>, \<open>str.replace\<close>, \<open>str\<close> of a length\<close>

fun startswith :: "pystr \<Rightarrow> pystr \<Rightarrow> bool" where
  "startswith s [] = True"
| "startswith [] (p # ps) = False"
| "startswith (c # s) (p # ps) = (c = p \<and> startswith s ps)"

text \<open>\<open>str_in sub s\<close> is Python's \<open>sub in s\<close>.\<close>

fun str_in :: "pystr \<Rightarrow> pystr \<Rightarrow> bool" where
  "str_in sub [] = startswith [] sub"
| "str_in sub (c # s) = (startswith (c # s) sub \<or> str_in sub s)"

text \<open>
  \<open>s.replace(old, new)\<close>: the occurrences of \<open>old\<close> are found from the left and do not
  overlap; an empty \<open>old\<close> matches before every character and at the end.
\<close>

function str_replace :: "pystr \<Rightarrow> pystr \<Rightarrow> pystr \<Rightarrow> pystr" where
  "str_replace s old new =
     (if old = [] then new @ concat (map (\<lambda>c. c # new) s)
      else if s = [] then []
      else if startswith s old then new @ str_replace (drop (length old) s) old new
      else hd s # str_replace (tl s) old new)"
  by pat_completeness auto
termination
  by (relation "measure (\<lambda>(s, old, new). length s)") (auto simp: neq_Nil_conv)

function str_of_nat :: "nat \<Rightarrow> pystr" where
  "str_of_nat n = (if n < 10 then [48 + n] else str_of_nat (n div 10) @ [48 + n mod 10])"
  by pat_completeness auto
termination
  by (relation "measure id") auto

section \<open>Response bodies\<close>

text \<open>
  What \<open>load\<close> hands to \<open>wfile.write\<close>: \<open>bytes\<close> from \<open>str.encode\<close>, a \<open>str\<close> from a
  file opened in text mode, or \<open>None\<close>.
\<close>

datatype pyval = PyNone | PyStr pystr | PyBytes bytes

text \<open>
  The file system as the two calls of the source see it: \<open>os.stat(name).st_size\<close> and
  \<open>open(name).read()\<close>, each \<open>None\<close> when the call raises.
\<close>

record filesystem =
  stat_size :: "pystr \<Rightarrow> nat option"
  read_text :: "pystr \<Rightarrow> pystr option"

text \<open>\<open>MockerResponse.Body\<close>\<close>

definition Body_init :: "pystr option \<Rightarrow> pystr" where
  "Body_init body = (case body of None \<Rightarrow> [] | Some b \<Rightarrow> if b = [] then [] else b)"

definition Body_load :: "pystr \<Rightarrow> error + pyval" where
  "Body_load body = (case str_encode body of Inl e \<Rightarrow> Inl e | Inr bs \<Rightarrow> Inr (PyBytes bs))"

definition Body_len :: "pystr \<Rightarrow> nat" where
  "Body_len body = length body"

text \<open>\<open>MockedResponse.MockedResponseBody\<close>\<close>

record MockedResponseBody =
  file_definition :: pystr
  content :: pystr
  is_file :: bool

definition MockedResponseBody_init :: "pystr option \<Rightarrow> MockedResponseBody" where
  "MockedResponseBody_init c =
     (let fd = lit ''@file://'';
          cont = (case c of None \<Rightarrow> [] | Some s \<Rightarrow> if s = [] then [] else s)
      in \<lparr> file_definition = fd, content = cont, is_file = str_in fd cont \<rparr>)"

definition MockedResponseBody_load :: "filesystem \<Rightarrow> MockedResponseBody \<Rightarrow> error + pyval" where
  "MockedResponseBody_load fs b =
     (if is_file b then
        (let filename = str_replace (content b) (file_definition b) [] in
         case read_text fs filename of
           Some text \<Rightarrow> Inr (PyStr text)
         | None \<Rightarrow> Inr PyNone)
      else
        (case str_encode (content b) of Inl e \<Rightarrow> Inl e | Inr bs \<Rightarrow> Inr (PyBytes bs)))"

definition MockedResponseBody_len :: "filesystem \<Rightarrow> MockedResponseBody \<Rightarrow> nat" where
  "MockedResponseBody_len fs b =
     (let filename = str_replace (content b) (file_definition b) [];
          len = (case stat_size fs filename of
                   Some n \<Rightarrow> n
                 | None \<Rightarrow> length (lit ''None''))
      in if is_file b then len else length (content b))"

datatype body = Body pystr | MockedBody MockedResponseBody

fun body_load :: "filesystem \<Rightarrow> body \<Rightarrow> error + pyval" where
  "body_load fs (Body b) = Body_load b"
| "body_load fs (MockedBody b) = MockedResponseBody_load fs b"

fun body_len :: "filesystem \<Rightarrow> body \<Rightarrow> nat" where
  "body_len fs (Body b) = Body_len b"
| "body_len fs (MockedBody b) = MockedResponseBody_len fs b"

section \<open>Responses\<close>

text \<open>
  A header is a single-key dict, kept as the list of its items. The arguments of
  \<open>Response.__init__\<close> are optional: \<open>None\<close> is Python's \<open>None\<close>. The constructor
  tests their truth value, so \<open>0\<close>, the empty string and the empty container count as
  absent too. Delays are whole seconds. The field \<open>method\<close> of the source is
  \<open>http_method\<close> here.
\<close>

type_synonym header = "(pystr \<times> pystr) list"

record Response =
  http_method :: pystr
  path :: pystr
  response_code :: int
  headers :: "header list"
  delay :: int
  body :: body

definition Response_init ::
  "(pystr option \<Rightarrow> body) \<Rightarrow> pystr option \<Rightarrow> pystr option \<Rightarrow> int option \<Rightarrow>
   header list option \<Rightarrow> pystr option \<Rightarrow> int option \<Rightarrow> Response" where
  "Response_init body_wrapper_cls m p rc hs b d =
     \<lparr> http_method = (case m of None \<Rightarrow> lit ''GET'' | Some s \<Rightarrow> if s \<noteq> [] then s else lit ''GET''),
       path = (case p of None \<Rightarrow> lit ''/'' | Some s \<Rightarrow> if s \<noteq> [] then s else lit ''/''),
       response_code = (case rc of None \<Rightarrow> 200 | Some n \<Rightarrow> if n \<noteq> 0 then n else 200),
       headers = (case hs of None \<Rightarrow> [] | Some h \<Rightarrow> if h \<noteq> [] then h else []),
       delay = (case d of None \<Rightarrow> 0 | Some n \<Rightarrow> if n \<noteq> 0 then n else 0),
       body = body_wrapper_cls b \<rparr>"

definition MockerResponse ::
  "pystr option \<Rightarrow> pystr option \<Rightarrow> int option \<Rightarrow> header list option \<Rightarrow> pystr option \<Rightarrow>
   int option \<Rightarrow> Response" where
  "MockerResponse = Response_init (\<lambda>b. Body (Body_init b))"

definition MockedResponse ::
  "pystr option \<Rightarrow> pystr option \<Rightarrow> int option \<Rightarrow> header list option \<Rightarrow> pystr option \<Rightarrow>
   int option \<Rightarrow> Response" where
  "MockedResponse = Response_init (\<lambda>b. MockedBody (MockedResponseBody_init b))"

section \<open>\<open>json.dumps\<close>\<close>

text \<open>
  The values the source serialises are lists, dicts, strings and \<open>None\<close>. With the
  default \<open>ensure_ascii\<close>, every character outside the printable ASCII range is escaped;
  code point 34 is the double quote and 92 the backslash.
\<close>

datatype json = JNull | JStr pystr | JArr "json list" | JObj "(pystr \<times> json) list"

definition hexdigit :: "nat \<Rightarrow> nat" where
  "hexdigit n = (if n < 10 then 48 + n else 87 + n)"

definition u_escape :: "nat \<Rightarrow> pystr" where
  "u_escape n =
     [92, 117, hexdigit (n div 4096 mod 16), hexdigit (n div 256 mod 16),
      hexdigit (n div 16 mod 16), hexdigit (n mod 16)]"

definition esc_char :: "nat \<Rightarrow> pystr" where
  "esc_char c =
     (if c = 34 then [92, 34]
      else if c = 92 then [92, 92]
      else if c = 10 then [92, 110]
      else if c = 13 then [92, 114]
      else if c = 9 then [92, 116]
      else if c = 8 then [92, 98]
      else if c = 12 then [92, 102]
      else if 32 \<le> c \<and> c \<le> 126 then [c]
      else if c < 0x10000 then u_escape c
      else u_escape (0xD800 + (c - 0x10000) div 1024 mod 1024)
           @ u_escape (0xDC00 + (c - 0x10000) mod 1024))"

definition json_string :: "pystr \<Rightarrow> pystr" where
  "json_string s = [34] @ concat (map esc_char s) @ [34]"

fun join :: "pystr \<Rightarrow> pystr list \<Rightarrow> pystr" where
  "join sep [] = []"
| "join sep [x] = x"
| "join sep (x # y # ys) = x @ sep @ join sep (y # ys)"

fun json_dumps :: "json \<Rightarrow> pystr" where
  "json_dumps JNull = lit ''null''"
| "json_dumps (JStr s) = json_string s"
| "json_dumps (JArr xs) = lit ''['' @ join (lit '', '') (map json_dumps xs) @ lit '']''"
| "json_dumps (JObj kvs) =
     lit ''{''
     @ join (lit '', '') (map (\<lambda>(k, v). json_string k @ lit '': '' @ json_dumps v) kvs)
     @ lit ''}''"

section \<open>CallsRegistry\<close>

text \<open>
  A registry entry is the dict the source builds, in insertion order; its values are
  strings or \<open>None\<close>.
\<close>

type_synonym call = "(pystr \<times> pystr option) list"

definition CallsRegistry_add ::
  "call list \<Rightarrow> pystr \<Rightarrow> pystr \<Rightarrow> bytes option \<Rightarrow> error + call list" where
  "CallsRegistry_add registry meth pth bdy =
     (case (case bdy of None \<Rightarrow> Inr None
            | Some b \<Rightarrow> (case bytes_decode b of Inl e \<Rightarrow> Inl e | Inr s \<Rightarrow> Inr (Some s))) of
        Inl e \<Rightarrow> Inl e
      | Inr bdy' \<Rightarrow>
          Inr (registry @ [[(lit ''method'', Some meth), (lit ''path'', Some pth),
                            (lit ''body'', bdy')]]))"

definition CallsRegistry_list :: "call list \<Rightarrow> call list" where
  "CallsRegistry_list registry = registry"

definition CallsRegistry_clear :: "call list \<Rightarrow> call list" where
  "CallsRegistry_clear registry = []"

definition json_of_call :: "call \<Rightarrow> json" where
  "json_of_call c = JObj (map (\<lambda>(k, v). (k, case v of None \<Rightarrow> JNull | Some s \<Rightarrow> JStr s)) c)"

section \<open>Configuration\<close>

text \<open>
  A response declaration of the configuration file, read with \<open>dict.get\<close>: a field is
  \<open>None\<close> when its key is missing or null. The tables are keyed by the declared path as
  it is, which may be \<open>None\<close>.
\<close>

record response_decl =
  decl_method :: "pystr option"
  decl_path :: "pystr option"
  decl_responseCode :: "int option"
  decl_headers :: "header list option"
  decl_body :: "pystr option"
  decl_delay :: "int option"

record Configuration =
  hostname :: pystr
  port :: int
  head_response_map :: "pystr option \<rightharpoonup> Response"
  get_response_map :: "pystr option \<rightharpoonup> Response"
  post_response_map :: "pystr option \<rightharpoonup> Response"
  put_response_map :: "pystr option \<rightharpoonup> Response"
  delete_response_map :: "pystr option \<rightharpoonup> Response"

text \<open>\<open>str.upper\<close> is taken as the parameter \<open>upper\<close>.\<close>

fun build_response_map ::
  "(pystr \<Rightarrow> pystr) \<Rightarrow> response_decl list \<Rightarrow> Configuration \<Rightarrow> error + Configuration" where
  "build_response_map upper [] conf = Inr conf"
| "build_response_map upper (response # responses) conf =
     (let mocked_resp =
            MockedResponse (decl_method response) (decl_path response)
              (decl_responseCode response) (decl_headers response) (decl_body response)
              (decl_delay response)
      in case decl_method response of
           None \<Rightarrow> Inl AttributeError
         | Some m \<Rightarrow>
             (let key = upper m; p = decl_path response in
              if key = lit ''GET'' then
                build_response_map upper responses
                  (conf\<lparr>get_response_map := (get_response_map conf)(p \<mapsto> mocked_resp)\<rparr>)
              else if key = lit ''POST'' then
                build_response_map upper responses
                  (conf\<lparr>post_response_map := (post_response_map conf)(p \<mapsto> mocked_resp)\<rparr>)
              else if key = lit ''PUT'' then
                build_response_map upper responses
                  (conf\<lparr>put_response_map := (put_response_map conf)(p \<mapsto> mocked_resp)\<rparr>)
              else if key = lit ''DELETE'' then
                build_response_map upper responses
                  (conf\<lparr>delete_response_map := (delete_response_map conf)(p \<mapsto> mocked_resp)\<rparr>)
              else if key = lit ''HEAD'' then
                build_response_map upper responses
                  (conf\<lparr>head_response_map := (head_response_map conf)(p \<mapsto> mocked_resp)\<rparr>)
              else Inl KeyError))"

definition Configuration_init ::
  "(pystr \<Rightarrow> pystr) \<Rightarrow> pystr \<Rightarrow> int \<Rightarrow> response_decl list \<Rightarrow> error + Configuration" where
  "Configuration_init upper h p responses =
     build_response_map upper responses
       \<lparr> hostname = h, port = p, head_response_map = Map.empty,
         get_response_map = Map.empty, post_response_map = Map.empty,
         put_response_map = Map.empty, delete_response_map = Map.empty \<rparr>"

section \<open>SimpleHandler\<close>

text \<open>
  What a handler instance holds of the request: the command of the request line, the
  path, the value of the \<open>Content-Length\<close> header (\<open>None\<close> when the header is missing)
  and the bytes still to be read from the connection.
\<close>

record SimpleHandler =
  self_command :: pystr
  self_path :: pystr
  self_content_length :: "pystr option"
  self_rfile :: bytes

definition response_map ::
  "Configuration \<Rightarrow> pystr \<Rightarrow> (pystr option \<rightharpoonup> Response) option" where
  "response_map configuration m =
     (if m = lit ''HEAD'' then Some (head_response_map configuration)
      else if m = lit ''GET'' then Some (get_response_map configuration)
      else if m = lit ''POST'' then Some (post_response_map configuration)
      else if m = lit ''PUT'' then Some (put_response_map configuration)
      else if m = lit ''DELETE'' then Some (delete_response_map configuration)
      else None)"

text \<open>
  \<open>rfile.read(n)\<close> on the buffered reader of the connection. The argument is
  converted to a signed 64-bit size first, which raises OverflowError when it does not
  fit; \<open>-1\<close> reads all that is left, any other negative length raises ValueError, and
  otherwise at most \<open>n\<close> bytes are returned.
\<close>

definition rfile_read :: "bytes \<Rightarrow> int \<Rightarrow> error + bytes" where
  "rfile_read rf n =
     (if n < - (2 ^ 63) \<or> 2 ^ 63 \<le> n then Inl OverflowError
      else if n = - 1 then Inr rf
      else if n < 0 then Inl ValueError
      else Inr (take (nat n) rf))"

text \<open>
  Lines 225 to 227. The condition \<open>headers.get('Content-Length') or 0 > 0\<close> is the truth
  value of the header string, since \<open>0 > 0\<close> is evaluated first. The builtin \<open>int\<close> is
  the parameter \<open>int_of\<close>, \<open>None\<close> where it raises ValueError. An exception of
  \<open>int\<close> or of \<open>rfile.read\<close> leaves \<open>retrieve_response\<close>: both are called before the
  \<open>try\<close>.
\<close>

definition read_content ::
  "(pystr \<Rightarrow> int option) \<Rightarrow> SimpleHandler \<Rightarrow> error + bytes option" where
  "read_content int_of self =
     (case self_content_length self of
        None \<Rightarrow> Inr None
      | Some cl \<Rightarrow>
          if cl \<noteq> [] then
            (case int_of cl of
               None \<Rightarrow> Inl ValueError
             | Some n \<Rightarrow>
                 (case rfile_read (self_rfile self) n of
                    Inl e \<Rightarrow> Inl e
                  | Inr bs \<Rightarrow> Inr (Some bs)))
          else Inr None)"

definition json_headers :: "header list" where
  "json_headers = [[(lit ''Content-Type'', lit ''application/json'')]]"

definition not_found_body :: "pystr \<Rightarrow> pystr" where
  "not_found_body pth =
     json_dumps (JObj [(lit ''message'', JStr (lit ''path '' @ [39] @ pth @ [39] @ lit '' not found''))])"

text \<open>
  Inside the \<open>try\<close> only \<open>response_map.get(method)\<close> returning \<open>None\<close> can raise: calling
  it is a TypeError, whose text is the constant below.
\<close>

definition error_body :: "pystr \<Rightarrow> pystr" where
  "error_body pth =
     json_dumps (JObj [(lit ''message'',
       JStr (lit ''An error happened with path '' @ [39] @ pth @ [39] @ lit '': ''
             @ [39] @ lit ''NoneType'' @ [39] @ lit '' object is not callable''))])"

text \<open>
  \<open>retrieve_response\<close> returns the response, or the exception that leaves it, together
  with the registry afterwards.
\<close>

definition retrieve_response ::
  "(pystr \<Rightarrow> int option) \<Rightarrow> Configuration \<Rightarrow> SimpleHandler \<Rightarrow> call list \<Rightarrow> pystr \<Rightarrow> pystr \<Rightarrow>
   (error + Response) \<times> call list" where
  "retrieve_response int_of configuration self registry pth meth =
     (if startswith pth (lit ''/mocker'') then
        (if meth = lit ''GET'' then
           (let hs = json_headers;
                d = json_dumps (JArr (map json_of_call (CallsRegistry_list registry)))
            in (Inr (MockerResponse (Some meth) (Some pth) (Some 200) (Some hs) (Some d) None),
                registry))
         else if meth = lit ''DELETE'' then
           (Inr (MockerResponse (Some meth) (Some pth) (Some 204) (Some []) (Some []) None),
            CallsRegistry_clear registry)
         else
           (Inr (MockerResponse (Some meth) (Some pth) (Some 500) (Some [])
                   (Some (lit ''Unknown method'')) None),
            registry))
      else
        (case read_content int_of self of
           Inl e \<Rightarrow> (Inl e, registry)
         | Inr cont \<Rightarrow>
             (case CallsRegistry_add registry pth meth cont of
                Inl e \<Rightarrow> (Inl e, registry)
              | Inr registry' \<Rightarrow>
                  (case response_map configuration meth of
                     Some get \<Rightarrow>
                       (case get (Some pth) of
                          Some response \<Rightarrow> (Inr response, registry')
                        | None \<Rightarrow>
                            (Inr (MockedResponse (Some meth) (Some pth) (Some 404)
                                    (Some json_headers) (Some (not_found_body pth)) None),
                             registry'))
                   | None \<Rightarrow>
                       (Inr (MockedResponse (Some meth) (Some pth) (Some 500)
                               (Some json_headers) (Some (error_body pth)) None),
                        registry')))))"

subsection \<open>send\<close>

text \<open>
  The calls \<open>send\<close> makes on the transport, in order, and the exception that ends it, if
  any. \<open>time.sleep\<close> raises ValueError for a negative delay, a header dict without a key
  gives IndexError at \<open>[0]\<close>, and \<open>wfile.write\<close> accepts only bytes.
\<close>

datatype event =
    Time_sleep int
  | Send_response int
  | Send_header pystr pystr
  | End_headers
  | Wfile_write bytes

fun send_headers :: "header list \<Rightarrow> event list \<times> error option" where
  "send_headers [] = ([], None)"
| "send_headers (h # hs) =
     (case h of
        [] \<Rightarrow> ([], Some IndexError)
      | (k, v) # _ \<Rightarrow> (case send_headers hs of (evs, err) \<Rightarrow> (Send_header k v # evs, err)))"

definition send :: "filesystem \<Rightarrow> Response \<Rightarrow> event list \<times> error option" where
  "send fs response =
     (if delay response < 0 then ([], Some ValueError)
      else
        (let evs0 = [Time_sleep (delay response), Send_response (response_code response)] in
         case send_headers (headers response) of
           (hevs, Some e) \<Rightarrow> (evs0 @ hevs, Some e)
         | (hevs, None) \<Rightarrow>
             (let evs1 = evs0 @ hevs
                    @ [Send_header (lit ''Content-length'')
                         (str_of_nat (body_len fs (body response))),
                       End_headers]
              in case body_load fs (body response) of
                   Inl e \<Rightarrow> (evs1, Some e)
                 | Inr (PyBytes bs) \<Rightarrow> (evs1 @ [Wfile_write bs], None)
                 | Inr _ \<Rightarrow> (evs1, Some TypeError))))"

subsection \<open>The \<open>do_\<close> methods\<close>

definition do_method ::
  "pystr \<Rightarrow> (pystr \<Rightarrow> int option) \<Rightarrow> Configuration \<Rightarrow> filesystem \<Rightarrow> SimpleHandler \<Rightarrow>
   call list \<Rightarrow> (event list \<times> error option) \<times> call list" where
  "do_method meth int_of configuration fs self registry =
     (case retrieve_response int_of configuration self registry (self_path self) meth of
        (Inl e, registry') \<Rightarrow> (([], Some e), registry')
      | (Inr response, registry') \<Rightarrow> (send fs response, registry'))"

definition "do_HEAD = do_method (lit ''HEAD'')"
definition "do_GET = do_method (lit ''GET'')"
definition "do_POST = do_method (lit ''POST'')"
definition "do_DELETE = do_method (lit ''DELETE'')"
definition "do_PUT = do_method (lit ''PUT'')"

text \<open>
  The base class calls the method named \<open>do_\<close> followed by the command when the handler
  class has one. SimpleHandler has the five above; for any other command nothing of
  server.py runs, which is the result \<open>None\<close> here.
\<close>

definition handle_one_request ::
  "(pystr \<Rightarrow> int option) \<Rightarrow> Configuration \<Rightarrow> filesystem \<Rightarrow> SimpleHandler \<Rightarrow> call list \<Rightarrow>
   ((event list \<times> error option) \<times> call list) option" where
  "handle_one_request int_of configuration fs self registry =
     (let c = self_command self in
      if c = lit ''HEAD'' then Some (do_HEAD int_of configuration fs self registry)
      else if c = lit ''GET'' then Some (do_GET int_of configuration fs self registry)
      else if c = lit ''POST'' then Some (do_POST int_of configuration fs self registry)
      else if c = lit ''DELETE'' then Some (do_DELETE int_of configuration fs self registry)
      else if c = lit ''PUT'' then Some (do_PUT int_of configuration fs self registry)
      else None)"

section \<open>Values used in the examples\<close>

text \<open>
  A value for the parameter \<open>int_of\<close>: \<open>int\<close> on a non-empty string of ASCII decimal
  digits. The other spellings \<open>int\<close> accepts (signs, surrounding whitespace, underscores)
  are not needed in the examples and raise here.
\<close>

definition ascii_int :: "pystr \<Rightarrow> int option" where
  "ascii_int s =
     (if s \<noteq> [] \<and> list_all (\<lambda>c. 48 \<le> c \<and> c \<le> 57) s
      then Some (int (foldl (\<lambda>a c. 10 * a + (c - 48)) 0 s))
      else None)"

text \<open>The configuration built from an empty list of responses.\<close>

definition empty_configuration :: Configuration where
  "empty_configuration =
     \<lparr> hostname = lit ''0.0.0.0'', port = 8000, head_response_map = Map.empty,
       get_response_map = Map.empty, post_response_map = Map.empty,
       put_response_map = Map.empty, delete_response_map = Map.empty \<rparr>"

text \<open>A file system without files, and one whose only file is \<open>greeting.txt\<close>.\<close>

definition no_files :: filesystem where
  "no_files = \<lparr> stat_size = (\<lambda>name. None), read_text = (\<lambda>name. None) \<rparr>"

definition greeting_files :: filesystem where
  "greeting_files =
     \<lparr> stat_size = (\<lambda>name. if name = lit ''greeting.txt'' then Some 5 else None),
       read_text = (\<lambda>name. if name = lit ''greeting.txt'' then Some (lit ''hello'') else None) \<rparr>"

section \<open>Predicates used in the statements\<close>

text \<open>Whether \<open>CallsRegistry.add\<close> can decode the body it is given.\<close>

definition decodable :: "bytes option \<Rightarrow> bool" where
  "decodable bdy =
     (case bdy of None \<Rightarrow> True
      | Some b \<Rightarrow> (case bytes_decode b of Inl e \<Rightarrow> False | Inr s \<Rightarrow> True))"

text \<open>A character that \<open>json.dumps\<close> copies as it is.\<close>

definition plain_char :: "nat \<Rightarrow> bool" where
  "plain_char c = (32 \<le> c \<and> c \<le> 126 \<and> c \<noteq> 34 \<and> c \<noteq> 92)"

section \<open>Strings: containment and replacement\<close>

lemma startswith_iff: "startswith s p \<longleftrightarrow> (\<exists>post. s = p @ post)"
  by (induction s p rule: startswith.induct) auto

lemma str_in_iff: "str_in sub s \<longleftrightarrow> (\<exists>pre post. s = pre @ sub @ post)"
proof (induction s)
  case Nil
  show ?case by (cases sub) auto
next
  case (Cons c s)
  have "(\<exists>pre post. c # s = pre @ sub @ post) \<longleftrightarrow>
        (\<exists>post. c # s = sub @ post) \<or> (\<exists>pre post. s = pre @ sub @ post)"
  proof
    assume "\<exists>pre post. c # s = pre @ sub @ post"
    then obtain pre post where e: "c # s = pre @ sub @ post" by blast
    show "(\<exists>post. c # s = sub @ post) \<or> (\<exists>pre post. s = pre @ sub @ post)"
    proof (cases pre)
      case Nil
      with e show ?thesis by auto
    next
      case (Cons a pre')
      with e have "s = pre' @ sub @ post" by simp
      then show ?thesis by blast
    qed
  next
    assume "(\<exists>post. c # s = sub @ post) \<or> (\<exists>pre post. s = pre @ sub @ post)"
    then show "\<exists>pre post. c # s = pre @ sub @ post"
    proof
      assume "\<exists>post. c # s = sub @ post"
      then obtain post where "c # s = [] @ sub @ post" by auto
      then show ?thesis by blast
    next
      assume "\<exists>pre post. s = pre @ sub @ post"
      then obtain pre post where "c # s = (c # pre) @ sub @ post" by auto
      then show ?thesis by blast
    qed
  qed
  with Cons show ?case by (simp add: startswith_iff)
qed

lemma startswith_append: "startswith (p @ rest) p"
  by (simp add: startswith_iff)

lemma str_replace_absent:
  "old \<noteq> [] \<Longrightarrow> \<not> str_in old s \<Longrightarrow> str_replace s old new = s"
proof (induction s)
  case Nil
  then show ?case by (subst str_replace.simps) simp
next
  case (Cons c s)
  then have "\<not> startswith (c # s) old" and "\<not> str_in old s" by auto
  with Cons show ?case by (subst str_replace.simps) simp
qed

lemma str_replace_prefix:
  "old \<noteq> [] \<Longrightarrow> str_replace (old @ rest) old new = new @ str_replace rest old new"
  by (subst str_replace.simps) (simp add: startswith_append)


declare str_replace.simps [simp del]

section \<open>Bodies and the response constructor\<close>

text \<open>
  Claim C7. For a file-backed body whose file cannot be examined with \<open>os.stat\<close> when
  the length is asked for, \<open>__len__\<close> returns the length of the literal \<open>None\<close>, which
  is 4.
\<close>

theorem MockedResponseBody_len_inaccessible:
  assumes "is_file b"
    and "stat_size fs (str_replace (content b) (file_definition b) []) = None"
  shows "MockedResponseBody_len fs b = length (lit ''None'') \<and> MockedResponseBody_len fs b = 4"
  using assms by (simp add: MockedResponseBody_len_def lit_def)

theorem MockedResponseBody_len_inaccessible_witness:
  "is_file (MockedResponseBody_init (Some (lit ''@file://gone.txt'')))
   \<and> MockedResponseBody_len \<lparr>stat_size = (\<lambda>_. None), read_text = (\<lambda>_. None)\<rparr>
        (MockedResponseBody_init (Some (lit ''@file://gone.txt''))) = 4"
proof -
  let ?b = "MockedResponseBody_init (Some (lit ''@file://gone.txt''))"
  let ?fs = "\<lparr>stat_size = (\<lambda>_. None), read_text = (\<lambda>_. None)\<rparr> :: filesystem"
  have h1: "is_file ?b" by (simp add: MockedResponseBody_init_def lit_def)
  have h2: "stat_size ?fs (str_replace (content ?b) (file_definition ?b) []) = None" by simp
  show ?thesis using h1 MockedResponseBody_len_inaccessible [OF h1 h2] by simp
qed

text \<open>
  Claim C10. \<open>Response.__init__\<close> tests the truth value of each argument on its own,
  whatever the other arguments are: a response code that is \<open>None\<close> or 0 becomes 200, a
  path that is \<open>None\<close> or empty becomes \<open>/\<close>, a method that is \<open>None\<close> or empty becomes
  \<open>GET\<close>, a delay that is \<open>None\<close> or 0 becomes 0 and a body that is \<open>None\<close> or empty becomes
  the empty inline body; a response code other than 0 and a non-empty path are kept.
  So the response code of a constructed response is never 0 and its path is never
  empty.
\<close>

theorem Response_init_falsy_defaults:
  "(rc = None \<or> rc = Some 0 \<longrightarrow> response_code (Response_init w m p rc hs b d) = 200)
   \<and> (p = None \<or> p = Some [] \<longrightarrow> path (Response_init w m p rc hs b d) = lit ''/'')
   \<and> (m = None \<or> m = Some [] \<longrightarrow> http_method (Response_init w m p rc hs b d) = lit ''GET'')
   \<and> (d = None \<or> d = Some 0 \<longrightarrow> delay (Response_init w m p rc hs b d) = 0)
   \<and> (b = None \<or> b = Some [] \<longrightarrow>
        body (MockedResponse m p rc hs b d)
          = MockedBody \<lparr>file_definition = lit ''@file://'', content = [], is_file = False\<rparr>
        \<and> body (MockerResponse m p rc hs b d) = Body [])
   \<and> (rc = Some n \<and> n \<noteq> 0 \<longrightarrow> response_code (Response_init w m p rc hs b d) = n)
   \<and> (p = Some s \<and> s \<noteq> [] \<longrightarrow> path (Response_init w m p rc hs b d) = s)
   \<and> response_code (Response_init w m p rc hs b d) \<noteq> 0
   \<and> path (Response_init w m p rc hs b d) \<noteq> []"
proof -
  have 1: "rc = None \<or> rc = Some 0 \<longrightarrow> response_code (Response_init w m p rc hs b d) = 200"
    by (auto simp: Response_init_def)
  have 2: "p = None \<or> p = Some [] \<longrightarrow> path (Response_init w m p rc hs b d) = lit ''/''"
    by (auto simp: Response_init_def)
  have 3: "m = None \<or> m = Some [] \<longrightarrow>
           http_method (Response_init w m p rc hs b d) = lit ''GET''"
    by (auto simp: Response_init_def)
  have 4: "d = None \<or> d = Some 0 \<longrightarrow> delay (Response_init w m p rc hs b d) = 0"
    by (auto simp: Response_init_def)
  have 5: "b = None \<or> b = Some [] \<longrightarrow>
        body (MockedResponse m p rc hs b d)
          = MockedBody \<lparr>file_definition = lit ''@file://'', content = [], is_file = False\<rparr>
        \<and> body (MockerResponse m p rc hs b d) = Body []"
    by (auto simp: MockedResponse_def MockerResponse_def Response_init_def
        MockedResponseBody_init_def Body_init_def lit_def)
  have 6: "rc = Some n \<and> n \<noteq> 0 \<longrightarrow> response_code (Response_init w m p rc hs b d) = n"
    by (auto simp: Response_init_def)
  have 7: "p = Some s \<and> s \<noteq> [] \<longrightarrow> path (Response_init w m p rc hs b d) = s"
    by (auto simp: Response_init_def)
  have 8: "response_code (Response_init w m p rc hs b d) \<noteq> 0"
    by (simp add: Response_init_def split: option.split)
  have 9: "path (Response_init w m p rc hs b d) \<noteq> []"
    by (simp add: Response_init_def lit_def split: option.split)
  from 1 2 3 4 5 6 7 8 9 show ?thesis by blast
qed

text \<open>
  The constructor at a response code of 0 with every other argument given, at an empty
  path, at a missing method, delay and body, and at the code 404 and the path \<open>/a\<close>.
\<close>

theorem Response_init_falsy_defaults_witness:
  "response_code (MockedResponse (Some (lit ''PUT'')) (Some (lit ''/a'')) (Some 0) None
      (Some (lit ''x'')) (Some 2)) = 200
   \<and> path (MockedResponse (Some (lit ''PUT'')) (Some []) (Some 404) None
      (Some (lit ''x'')) (Some 2)) = lit ''/''
   \<and> http_method (MockedResponse None (Some (lit ''/a'')) (Some 404) None None None)
      = lit ''GET''
   \<and> delay (MockedResponse None (Some (lit ''/a'')) (Some 404) None None None) = 0
   \<and> body (MockedResponse None (Some (lit ''/a'')) (Some 404) None None None)
      = MockedBody \<lparr>file_definition = lit ''@file://'', content = [], is_file = False\<rparr>
   \<and> response_code (MockedResponse None (Some (lit ''/a'')) (Some 404) None None None) = 404
   \<and> path (MockedResponse None (Some (lit ''/a'')) (Some 404) None None None) = lit ''/a''"
proof -
  let ?w = "\<lambda>b. MockedBody (MockedResponseBody_init b)"
  have ne: "lit ''/a'' \<noteq> []" by (simp add: lit_def)
  have a: "response_code (Response_init ?w (Some (lit ''PUT'')) (Some (lit ''/a'')) (Some 0) None
      (Some (lit ''x'')) (Some 2)) = 200"
    using Response_init_falsy_defaults
      [of "Some 0" ?w "Some (lit ''PUT'')" "Some (lit ''/a'')" None "Some (lit ''x'')" "Some 2"]
    by simp
  have b: "path (Response_init ?w (Some (lit ''PUT'')) (Some []) (Some 404) None
      (Some (lit ''x'')) (Some 2)) = lit ''/''"
    using Response_init_falsy_defaults
      [of "Some 404" ?w "Some (lit ''PUT'')" "Some []" None "Some (lit ''x'')" "Some 2"]
    by simp
  have c: "http_method (Response_init ?w None (Some (lit ''/a'')) (Some 404) None None None)
        = lit ''GET''
      \<and> delay (Response_init ?w None (Some (lit ''/a'')) (Some 404) None None None) = 0
      \<and> body (MockedResponse None (Some (lit ''/a'')) (Some 404) None None None)
        = MockedBody \<lparr>file_definition = lit ''@file://'', content = [], is_file = False\<rparr>
      \<and> response_code (Response_init ?w None (Some (lit ''/a'')) (Some 404) None None None)
        = 404
      \<and> path (Response_init ?w None (Some (lit ''/a'')) (Some 404) None None None) = lit ''/a''"
    using ne Response_init_falsy_defaults
      [of "Some 404" ?w None "Some (lit ''/a'')" None None None 404 "lit ''/a''"]
    by simp
  from a b c show ?thesis by (simp add: MockedResponse_def)
qed

text \<open>
  Claim C2, as the code has it. A body is file-backed exactly when its string contains
  the marker \<open>@file://\<close> somewhere, not only at the start; the content is the string
  unchanged; \<open>load\<close> reads the file named by the string with every occurrence of the marker
  removed when the body is file-backed and encodes the string otherwise. For a string
  that starts with the marker and has no further occurrence of it, that file name is the
  remainder.
\<close>

theorem MockedResponseBody_marker_anywhere:
  "(is_file (MockedResponseBody_init (Some s)) \<longleftrightarrow> (\<exists>pre post. s = pre @ lit ''@file://'' @ post))
   \<and> content (MockedResponseBody_init (Some s)) = s
   \<and> MockedResponseBody_load fs (MockedResponseBody_init (Some s)) =
       (if is_file (MockedResponseBody_init (Some s)) then
          (case read_text fs (str_replace s (lit ''@file://'') []) of
             Some text \<Rightarrow> Inr (PyStr text) | None \<Rightarrow> Inr PyNone)
        else (case str_encode s of Inl e \<Rightarrow> Inl e | Inr bs \<Rightarrow> Inr (PyBytes bs)))
   \<and> (\<not> str_in (lit ''@file://'') rest \<longrightarrow>
        str_replace (lit ''@file://'' @ rest) (lit ''@file://'') [] = rest)"
proof -
  have c: "content (MockedResponseBody_init (Some s)) = s"
    by (simp add: MockedResponseBody_init_def Let_def)
  have f: "is_file (MockedResponseBody_init (Some s)) = str_in (lit ''@file://'') s"
    by (simp add: MockedResponseBody_init_def Let_def)
  have d: "file_definition (MockedResponseBody_init (Some s)) = lit ''@file://''"
    by (simp add: MockedResponseBody_init_def Let_def)
  have 1: "is_file (MockedResponseBody_init (Some s)) \<longleftrightarrow> (\<exists>pre post. s = pre @ lit ''@file://'' @ post)"
    unfolding f by (rule str_in_iff)
  have 3: "MockedResponseBody_load fs (MockedResponseBody_init (Some s)) =
       (if is_file (MockedResponseBody_init (Some s)) then
          (case read_text fs (str_replace s (lit ''@file://'') []) of
             Some text \<Rightarrow> Inr (PyStr text) | None \<Rightarrow> Inr PyNone)
        else (case str_encode s of Inl e \<Rightarrow> Inl e | Inr bs \<Rightarrow> Inr (PyBytes bs)))"
    by (simp add: MockedResponseBody_load_def c d)
  have ne: "lit ''@file://'' \<noteq> []" by (simp add: lit_def)
  have 4: "\<not> str_in (lit ''@file://'') rest \<longrightarrow>
        str_replace (lit ''@file://'' @ rest) (lit ''@file://'') [] = rest"
    using ne by (simp add: str_replace_prefix str_replace_absent)
  from 1 c 3 4 show ?thesis by blast
qed

theorem MockedResponseBody_marker_anywhere_witness:
  "\<not> str_in (lit ''@file://'') (lit ''greeting.txt'')
   \<and> str_replace (lit ''@file://'' @ lit ''greeting.txt'') (lit ''@file://'') [] = lit ''greeting.txt''
   \<and> is_file (MockedResponseBody_init (Some (lit ''@file://greeting.txt'')))"
proof -
  have h: "\<not> str_in (lit ''@file://'') (lit ''greeting.txt'')" by (simp add: lit_def)
  have i: "is_file (MockedResponseBody_init (Some (lit ''@file://greeting.txt'')))"
    by (simp add: MockedResponseBody_init_def lit_def)
  show ?thesis
    using h i MockedResponseBody_marker_anywhere [of "lit ''@file://greeting.txt''"
        "\<lparr>stat_size = (\<lambda>_. None), read_text = (\<lambda>_. None)\<rparr>" "lit ''greeting.txt''"]
    by blast
qed

text \<open>
  The string \<open>a@file://x\<close> does not start with the marker, yet its body is file-backed
  and the file opened is \<open>ax\<close>; for \<open>@file://a@file://b\<close> the file opened is \<open>ab\<close>, not
  the remainder after the prefix.
\<close>

theorem MockedResponseBody_prefix_counterexample:
  "is_file (MockedResponseBody_init (Some (lit ''a@file://x'')))
   \<and> \<not> startswith (lit ''a@file://x'') (lit ''@file://'')
   \<and> str_replace (lit ''a@file://x'') (lit ''@file://'') [] = lit ''ax''
   \<and> str_replace (lit ''@file://a@file://b'') (lit ''@file://'') [] = lit ''ab''"
  by (simp add: MockedResponseBody_init_def lit_def str_replace.simps)

section \<open>Requests\<close>

lemma Configuration_init_empty:
  "Configuration_init upper (lit ''0.0.0.0'') 8000 [] = Inr empty_configuration"
  by (simp add: Configuration_init_def empty_configuration_def)

text \<open>
  Claim C1 says that the record of a request carries the request's method under
  \<open>method\<close> and its path under \<open>path\<close>. The call at line 229 passes the path first and
  the method second to \<open>add(method, path, body)\<close>: after \<open>POST /orders\<close> without a body the
  registry holds the path under \<open>method\<close> and the method under \<open>path\<close>, and \<open>GET /mocker\<close>
  returns them so.
\<close>

theorem registry_fields_swapped:
  \<open>snd (retrieve_response ascii_int empty_configuration
       \<lparr>self_command = lit ''POST'', self_path = lit ''/orders'',
        self_content_length = None, self_rfile = []\<rparr>
       [] (lit ''/orders'') (lit ''POST''))
    = [[(lit ''method'', Some (lit ''/orders'')), (lit ''path'', Some (lit ''POST'')),
        (lit ''body'', None)]]
   \<and> fst (retrieve_response ascii_int empty_configuration
       \<lparr>self_command = lit ''GET'', self_path = lit ''/mocker'',
        self_content_length = None, self_rfile = []\<rparr>
       [[(lit ''method'', Some (lit ''/orders'')), (lit ''path'', Some (lit ''POST'')),
         (lit ''body'', None)]]
       (lit ''/mocker'') (lit ''GET''))
    = Inr \<lparr>http_method = lit ''GET'', path = lit ''/mocker'', response_code = 200,
           headers = [[(lit ''Content-Type'', lit ''application/json'')]], delay = 0,
           body = Body (lit ''[{"method": "/orders", "path": "POST", "body": null}]'')\<rparr>\<close>
  by (simp add: retrieve_response_def read_content_def CallsRegistry_add_def
      CallsRegistry_list_def response_map_def empty_configuration_def MockedResponse_def
      MockerResponse_def Response_init_def Body_init_def json_of_call_def json_headers_def
      json_string_def esc_char_def lit_def)

text \<open>
  Claim C3 says that the length of an inline body is the length of its UTF-8 encoding.
  \<open>__len__\<close> returns \<open>len(self.content)\<close>, the number of code points: for the one-character
  body U+00E9 the length is 1 while \<open>load\<close> yields two bytes, and \<open>send\<close> announces a
  \<open>Content-length\<close> of 1 before it writes the two bytes.
\<close>

theorem inline_length_counts_code_points:
  "MockedResponseBody_len no_files (MockedResponseBody_init (Some [0xE9])) = 1
   \<and> MockedResponseBody_load no_files (MockedResponseBody_init (Some [0xE9]))
       = Inr (PyBytes [0xC3, 0xA9])
   \<and> send no_files (MockedResponse (Some (lit ''GET'')) (Some (lit ''/e'')) (Some 200) None
         (Some [0xE9]) None)
       = ([Time_sleep 0, Send_response 200, Send_header (lit ''Content-length'') (lit ''1''),
           End_headers, Wfile_write [0xC3, 0xA9]], None)"
  by (simp add: MockedResponseBody_len_def MockedResponseBody_load_def
      MockedResponseBody_init_def send_def MockedResponse_def Response_init_def
      utf8_encode_cp_def no_files_def lit_def Let_def)

text \<open>
  Claim C4 says that \<open>load\<close> returns bytes and that a readable file's content becomes the
  response body. \<open>load\<close> opens the file in text mode and returns a \<open>str\<close>: for
  \<open>greeting.txt\<close> holding \<open>hello\<close> it returns that text, \<open>wfile.write\<close> refuses it and no
  body is written. When the file is missing \<open>load\<close> returns \<open>None\<close> without raising, the
  status line and a \<open>Content-length\<close> of 4 are sent, and the write fails in the same way.
\<close>

theorem file_body_is_text_not_bytes:
  "MockedResponseBody_load greeting_files
     (MockedResponseBody_init (Some (lit ''@file://greeting.txt''))) = Inr (PyStr (lit ''hello''))
   \<and> send greeting_files (MockedResponse (Some (lit ''GET'')) (Some (lit ''/hi'')) (Some 200) None
         (Some (lit ''@file://greeting.txt'')) None)
       = ([Time_sleep 0, Send_response 200, Send_header (lit ''Content-length'') (lit ''5''),
           End_headers], Some TypeError)
   \<and> MockedResponseBody_load no_files
     (MockedResponseBody_init (Some (lit ''@file://greeting.txt''))) = Inr PyNone
   \<and> send no_files (MockedResponse (Some (lit ''GET'')) (Some (lit ''/hi'')) (Some 200) None
         (Some (lit ''@file://greeting.txt'')) None)
       = ([Time_sleep 0, Send_response 200, Send_header (lit ''Content-length'') (lit ''4''),
           End_headers], Some TypeError)"
  by (simp add: MockedResponseBody_len_def MockedResponseBody_load_def
      MockedResponseBody_init_def send_def MockedResponse_def Response_init_def
      greeting_files_def no_files_def lit_def Let_def str_replace.simps)

text \<open>
  Claim C5 says that a body which is not valid UTF-8 is answered with a 500 response.
  \<open>add\<close> raises on the body \<open>0xFF\<close>, but it is called before the \<open>try\<close>: the exception
  leaves \<open>retrieve_response\<close> and \<open>do_POST\<close>, and \<open>send\<close> is never called.
\<close>

theorem decode_error_is_not_answered:
  "CallsRegistry_add [] (lit ''POST'') (lit ''/x'') (Some [0xFF]) = Inl UnicodeDecodeError
   \<and> retrieve_response ascii_int empty_configuration
       \<lparr>self_command = lit ''POST'', self_path = lit ''/x'',
        self_content_length = Some (lit ''1''), self_rfile = [0xFF]\<rparr>
       [] (lit ''/x'') (lit ''POST'') = (Inl UnicodeDecodeError, [])
   \<and> handle_one_request ascii_int empty_configuration no_files
       \<lparr>self_command = lit ''POST'', self_path = lit ''/x'',
        self_content_length = Some (lit ''1''), self_rfile = [0xFF]\<rparr> []
      = Some (([], Some UnicodeDecodeError), [])"
  by (simp add: retrieve_response_def read_content_def CallsRegistry_add_def
      handle_one_request_def do_POST_def do_method_def rfile_read_def ascii_int_def lit_def)

section \<open>The introspection path and the registry\<close>

lemma str_encode_ascii:
  "list_all (\<lambda>c. c < 128) s \<Longrightarrow> str_encode s = Inr (map of_nat s)"
  by (induction s) (simp_all add: utf8_encode_cp_def)

lemma MockerResponse_unknown_method:
  "MockerResponse (Some m) (Some p) (Some 500) (Some []) (Some (lit ''Unknown method'')) None
     = \<lparr> http_method = (if m \<noteq> [] then m else lit ''GET''),
         path = (if p \<noteq> [] then p else lit ''/''),
         response_code = 500, headers = [], delay = 0,
         body = Body (lit ''Unknown method'') \<rparr>"
  by (simp add: MockerResponse_def Response_init_def Body_init_def lit_def)

lemma send_unknown_method:
  "send fs \<lparr> http_method = m, path = p, response_code = 500, headers = [], delay = 0,
             body = Body (lit ''Unknown method'') \<rparr>
     = ([Time_sleep 0, Send_response 500,
         Send_header (lit ''Content-length'') (lit ''14''), End_headers,
         Wfile_write (map of_nat (lit ''Unknown method''))], None)"
proof -
  have l: "length (lit ''Unknown method'') = 14" by (simp add: lit_def)
  have n: "str_of_nat 14 = lit ''14''" by (simp add: lit_def)
  have e: "str_encode (lit ''Unknown method'') = Inr (map of_nat (lit ''Unknown method''))"
    by (rule str_encode_ascii) (simp add: lit_def)
  show ?thesis
    by (simp add: send_def Body_len_def Body_load_def l n e del: str_of_nat.simps)
qed

text \<open>
  Claim C9, as the code has it. On a path that starts with \<open>/mocker\<close>,
  \<open>retrieve_response\<close> answers every method other than GET and DELETE with status 500, no
  configured header and the body \<open>Unknown method\<close>, and leaves the registry as it is. A
  request reaches it only through one of the five \<open>do_\<close> methods, so the server sends
  this response for HEAD, POST and PUT: status 500, a \<open>Content-length\<close> of 14 and the
  fourteen bytes of the text.
\<close>

theorem introspection_other_method:
  assumes "startswith pth (lit ''/mocker'')"
    and "meth \<noteq> lit ''GET''"
    and "meth \<noteq> lit ''DELETE''"
    and "self_path self = pth"
    and "self_command self = lit ''HEAD'' \<or> self_command self = lit ''POST''
         \<or> self_command self = lit ''PUT''"
  shows "(\<exists>r. retrieve_response int_of conf self registry pth meth = (Inr r, registry)
            \<and> response_code r = 500 \<and> headers r = [] \<and> delay r = 0
            \<and> body r = Body (lit ''Unknown method''))
     \<and> handle_one_request int_of conf fs self registry
         = Some (([Time_sleep 0, Send_response 500,
                   Send_header (lit ''Content-length'') (lit ''14''), End_headers,
                   Wfile_write (map of_nat (lit ''Unknown method''))], None), registry)"
proof -
  have r: "\<And>m. m \<noteq> lit ''GET'' \<Longrightarrow> m \<noteq> lit ''DELETE'' \<Longrightarrow>
      retrieve_response int_of conf self registry pth m
        = (Inr (MockerResponse (Some m) (Some pth) (Some 500) (Some [])
              (Some (lit ''Unknown method'')) None), registry)"
    using assms(1) by (simp add: retrieve_response_def)
  have 1: "\<exists>r. retrieve_response int_of conf self registry pth meth = (Inr r, registry)
            \<and> response_code r = 500 \<and> headers r = [] \<and> delay r = 0
            \<and> body r = Body (lit ''Unknown method'')"
    using r [OF assms(2) assms(3)] by (simp add: MockerResponse_unknown_method)
  have g: "lit ''HEAD'' \<noteq> lit ''GET''" "lit ''HEAD'' \<noteq> lit ''DELETE''"
    "lit ''POST'' \<noteq> lit ''GET''" "lit ''POST'' \<noteq> lit ''DELETE''"
    "lit ''PUT'' \<noteq> lit ''GET''" "lit ''PUT'' \<noteq> lit ''DELETE''"
    "lit ''POST'' \<noteq> lit ''HEAD''" "lit ''PUT'' \<noteq> lit ''HEAD''" "lit ''PUT'' \<noteq> lit ''POST''"
    by (simp_all add: lit_def)
  have d: "\<And>m. m \<noteq> lit ''GET'' \<Longrightarrow> m \<noteq> lit ''DELETE'' \<Longrightarrow>
      do_method m int_of conf fs self registry
        = (([Time_sleep 0, Send_response 500,
             Send_header (lit ''Content-length'') (lit ''14''), End_headers,
             Wfile_write (map of_nat (lit ''Unknown method''))], None), registry)"
    by (simp add: do_method_def assms(4) r MockerResponse_unknown_method send_unknown_method)
  have 2: "handle_one_request int_of conf fs self registry
         = Some (([Time_sleep 0, Send_response 500,
                   Send_header (lit ''Content-length'') (lit ''14''), End_headers,
                   Wfile_write (map of_nat (lit ''Unknown method''))], None), registry)"
    using assms(5)
  proof (elim disjE)
    assume c: "self_command self = lit ''HEAD''"
    show ?thesis
      by (simp add: handle_one_request_def c do_HEAD_def d g)
  next
    assume c: "self_command self = lit ''POST''"
    show ?thesis
      by (simp add: handle_one_request_def c do_POST_def d g)
  next
    assume c: "self_command self = lit ''PUT''"
    show ?thesis
      by (simp add: handle_one_request_def c do_PUT_def d g)
  qed
  from 1 2 show ?thesis by blast
qed

theorem introspection_other_method_witness:
  "startswith (lit ''/mocker/calls'') (lit ''/mocker'')
   \<and> handle_one_request ascii_int empty_configuration no_files
        \<lparr>self_command = lit ''PUT'', self_path = lit ''/mocker/calls'',
         self_content_length = None, self_rfile = []\<rparr> []
      = Some (([Time_sleep 0, Send_response 500,
                Send_header (lit ''Content-length'') (lit ''14''), End_headers,
                Wfile_write (map of_nat (lit ''Unknown method''))], None), [])"
proof -
  let ?self = "\<lparr>self_command = lit ''PUT'', self_path = lit ''/mocker/calls'',
         self_content_length = None, self_rfile = []\<rparr>"
  have h1: "startswith (lit ''/mocker/calls'') (lit ''/mocker'')" by (simp add: lit_def)
  have h2: "lit ''PATCH'' \<noteq> lit ''GET''" by (simp add: lit_def)
  have h3: "lit ''PATCH'' \<noteq> lit ''DELETE''" by (simp add: lit_def)
  have h4: "self_path ?self = lit ''/mocker/calls''" by simp
  have h5: "self_command ?self = lit ''HEAD'' \<or> self_command ?self = lit ''POST''
         \<or> self_command ?self = lit ''PUT''" by simp
  show ?thesis
    using h1 introspection_other_method [OF h1 h2 h3 h4 h5, of ascii_int empty_configuration "[]" no_files]
    by blast
qed

text \<open>
  SimpleHandler has no \<open>do_PATCH\<close>: for \<open>PATCH /mocker\<close> nothing of server.py runs, and
  the 500 response of \<open>retrieve_response\<close> is not produced.
\<close>

theorem introspection_patch_counterexample:
  "startswith (lit ''/mocker'') (lit ''/mocker'')
   \<and> lit ''PATCH'' \<noteq> lit ''GET'' \<and> lit ''PATCH'' \<noteq> lit ''DELETE''
   \<and> handle_one_request ascii_int empty_configuration no_files
        \<lparr>self_command = lit ''PATCH'', self_path = lit ''/mocker'',
         self_content_length = None, self_rfile = []\<rparr> [] = None"
  by (simp add: handle_one_request_def lit_def)

lemma decodable_add:
  "decodable cont \<Longrightarrow> \<exists>c. CallsRegistry_add registry m p cont = Inr (registry @ [c])"
  by (auto simp: decodable_def CallsRegistry_add_def split: option.splits sum.splits)




text \<open>
  Nor is a request recorded whose \<open>Content-Length\<close> is a length \<open>rfile.read\<close> refuses: the
  exception leaves \<open>retrieve_response\<close> before \<open>add\<close> is called.
\<close>

lemma refused_length_not_recorded:
  assumes "\<not> startswith pth (lit ''/mocker'')"
    and "self_content_length self = Some cl"
    and "cl \<noteq> []"
    and "int_of cl = Some n"
    and "n < - 1 \<or> 2 ^ 63 \<le> n"
  shows "\<exists>e. retrieve_response int_of conf self registry pth meth = (Inl e, registry)"
proof -
  have "\<exists>e. rfile_read (self_rfile self) n = Inl e"
    using assms(5) by (auto simp: rfile_read_def)
  then obtain e where "read_content int_of self = Inl e"
    using assms(2) assms(3) assms(4) by (auto simp: read_content_def)
  then show ?thesis
    using assms(1) by (simp add: retrieve_response_def)
qed

section \<open>The response for an unmatched path\<close>

text \<open>
  \<open>json.dumps\<close> copies a character or writes an escape that starts with a backslash and
  holds no \<open>@\<close>, so the marker \<open>@file://\<close> occurs in the serialised message only where it
  occurs in the path.
\<close>

lemma esc_char_plain: "plain_char c \<Longrightarrow> esc_char c = [c]"
  by (auto simp: plain_char_def esc_char_def)

lemma hexdigit_bounds: "n < 16 \<Longrightarrow> 48 \<le> hexdigit n \<and> hexdigit n < 128 \<and> hexdigit n \<noteq> 64"
  by (auto simp: hexdigit_def)

lemma u_escape_form:
  "\<exists>t. u_escape n = 92 # t \<and> 64 \<notin> set t \<and> list_all (\<lambda>x. x < 128) t"
proof -
  have "\<And>k. hexdigit (k mod 16) \<noteq> 64 \<and> hexdigit (k mod 16) < 128"
    using hexdigit_bounds by simp
  then show ?thesis by (simp add: u_escape_def)
qed

lemma esc_char_form:
  "esc_char c = [c] \<and> c < 128 \<or>
   (\<exists>t. esc_char c = 92 # t \<and> 64 \<notin> set t \<and> list_all (\<lambda>x. x < 128) t)"
proof -
  obtain t1 where t1: "u_escape c = 92 # t1" "64 \<notin> set t1" "list_all (\<lambda>x. x < 128) t1"
    using u_escape_form by blast
  obtain t2 where t2: "u_escape (0xD800 + (c - 0x10000) div 1024 mod 1024) = 92 # t2"
    "64 \<notin> set t2" "list_all (\<lambda>x. x < 128) t2"
    using u_escape_form by blast
  obtain t3 where t3: "u_escape (0xDC00 + (c - 0x10000) mod 1024) = 92 # t3"
    "64 \<notin> set t3" "list_all (\<lambda>x. x < 128) t3"
    using u_escape_form by blast
  show ?thesis
    unfolding esc_char_def using t1 t2 t3 by auto
qed

lemma esc_ascii: "list_all (\<lambda>x. x < 128) (concat (map esc_char p))"
proof (induction p)
  case Nil
  show ?case by simp
next
  case (Cons c p)
  from esc_char_form [of c] have "list_all (\<lambda>x. x < 128) (esc_char c)" by auto
  with Cons show ?case by simp
qed

lemma str_in_skip: "m \<notin> set A \<Longrightarrow> str_in (m # ms) (A @ X) = str_in (m # ms) X"
  by (induction A) auto

lemma startswith_esc:
  "list_all (\<lambda>x. plain_char x \<and> x \<noteq> 39) w \<Longrightarrow>
   startswith (concat (map esc_char p) @ 39 # post) w \<Longrightarrow> startswith p w"
proof (induction w arbitrary: p)
  case Nil
  show ?case by simp
next
  case (Cons x w)
  then have x: "plain_char x" "x \<noteq> 39" and w: "list_all (\<lambda>x. plain_char x \<and> x \<noteq> 39) w"
    by simp_all
  show ?case
  proof (cases p)
    case Nil
    with Cons.prems(2) x show ?thesis by simp
  next
    case (Cons c p')
    from esc_char_form [of c] show ?thesis
    proof
      assume "esc_char c = [c] \<and> c < 128"
      with Cons.prems(2) Cons have "c = x" "startswith (concat (map esc_char p') @ 39 # post) w"
        by simp_all
      with Cons.IH [OF w] Cons show ?thesis by simp
    next
      assume "\<exists>t. esc_char c = 92 # t \<and> 64 \<notin> set t \<and> list_all (\<lambda>x. x < 128) t"
      then obtain t where "esc_char c = 92 # t" by blast
      with Cons.prems(2) Cons have "x = 92" by simp
      with x show ?thesis by (simp add: plain_char_def)
    qed
  qed
qed

lemma str_in_esc:
  assumes "64 \<notin> set post"
  shows "str_in (lit ''@file://'') (concat (map esc_char p) @ 39 # post) \<Longrightarrow>
         str_in (lit ''@file://'') p"
proof (induction p)
  case Nil
  have "str_in (64 # lit ''file://'') ((39 # post) @ []) = str_in (64 # lit ''file://'') []"
    by (rule str_in_skip) (use assms in simp)
  with Nil show ?case by (simp add: lit_def)
next
  case (Cons c p)
  let ?R = "concat (map esc_char p) @ 39 # post"
  have M: "lit ''@file://'' = 64 # lit ''file://''" by (simp add: lit_def)
  have tail: "list_all (\<lambda>x. plain_char x \<and> x \<noteq> 39) (lit ''file://'')"
    by (simp add: lit_def plain_char_def)
  from esc_char_form [of c] show ?case
  proof
    assume e: "esc_char c = [c] \<and> c < 128"
    with Cons.prems have "startswith (c # ?R) (lit ''@file://'') \<or> str_in (lit ''@file://'') ?R"
      by simp
    then show ?thesis
    proof
      assume "startswith (c # ?R) (lit ''@file://'')"
      then have "c = 64" "startswith ?R (lit ''file://'')" by (simp_all add: M)
      with startswith_esc [OF tail] have "startswith (c # p) (lit ''@file://'')"
        by (simp add: M)
      then show ?thesis by simp
    next
      assume "str_in (lit ''@file://'') ?R"
      with Cons.IH show ?thesis by simp
    qed
  next
    assume "\<exists>t. esc_char c = 92 # t \<and> 64 \<notin> set t \<and> list_all (\<lambda>x. x < 128) t"
    then obtain t where t: "esc_char c = 92 # t" "64 \<notin> set t" by blast
    have "str_in (64 # lit ''file://'') ((92 # t) @ ?R) = str_in (64 # lit ''file://'') ?R"
      by (rule str_in_skip) (use t in simp)
    with Cons.prems t have "str_in (lit ''@file://'') ?R" by (simp add: M)
    with Cons.IH show ?thesis by simp
  qed
qed

lemma not_found_body_shape:
  \<open>not_found_body pth =
     lit ''{"message": "path '' @ [39] @ concat (map esc_char pth) @ [39] @ lit '' not found"}''\<close>
  by (simp add: not_found_body_def json_string_def esc_char_def lit_def)

lemma not_found_body_plain:
  \<open>list_all plain_char pth \<Longrightarrow>
   not_found_body pth = lit ''{"message": "path '' @ [39] @ pth @ [39] @ lit '' not found"}''\<close>
proof -
  assume "list_all plain_char pth"
  then have "concat (map esc_char pth) = pth"
    by (induction pth) (simp_all add: esc_char_plain)
  then show ?thesis by (simp add: not_found_body_shape)
qed

lemma not_found_body_ascii: "list_all (\<lambda>x. x < 128) (not_found_body pth)"
  using esc_ascii [of pth] by (simp add: not_found_body_shape lit_def)

lemma not_found_body_no_marker:
  assumes "\<not> str_in (lit ''@file://'') pth"
  shows "\<not> str_in (lit ''@file://'') (not_found_body pth)"
proof
  assume a: "str_in (lit ''@file://'') (not_found_body pth)"
  let ?post = \<open>lit '' not found"}''\<close>
  let ?R = "concat (map esc_char pth) @ 39 # ?post"
  have \<open>str_in (64 # lit ''file://'') ((lit ''{"message": "path '' @ [39]) @ ?R)
        = str_in (64 # lit ''file://'') ?R\<close>
    by (rule str_in_skip) (simp add: lit_def)
  moreover have "lit ''@file://'' = 64 # lit ''file://''" by (simp add: lit_def)
  ultimately have "str_in (lit ''@file://'') ?R"
    using a by (simp add: not_found_body_shape)
  moreover have "64 \<notin> set ?post" by (simp add: lit_def)
  ultimately have "str_in (lit ''@file://'') pth" by (rule str_in_esc [rotated])
  with assms show False by simp
qed


lemma MockedResponse_not_found:
  assumes "\<not> str_in (lit ''@file://'') pth"
  shows "MockedResponse (Some m) (Some pth) (Some 404) (Some json_headers)
           (Some (not_found_body pth)) None
     = \<lparr> http_method = (if m \<noteq> [] then m else lit ''GET''),
         path = (if pth \<noteq> [] then pth else lit ''/''),
         response_code = 404,
         headers = [[(lit ''Content-Type'', lit ''application/json'')]],
         delay = 0,
         body = MockedBody \<lparr> file_definition = lit ''@file://'',
                             content = not_found_body pth, is_file = False \<rparr> \<rparr>"
  using not_found_body_no_marker [OF assms]
  by (simp add: MockedResponse_def Response_init_def MockedResponseBody_init_def
      json_headers_def Let_def)

lemma send_not_found:
  "send fs \<lparr> http_method = m, path = p, response_code = 404,
             headers = [[(lit ''Content-Type'', lit ''application/json'')]], delay = 0,
             body = MockedBody \<lparr> file_definition = lit ''@file://'',
                                 content = not_found_body pth, is_file = False \<rparr> \<rparr>
     = ([Time_sleep 0, Send_response 404,
         Send_header (lit ''Content-Type'') (lit ''application/json''),
         Send_header (lit ''Content-length'') (str_of_nat (length (not_found_body pth))),
         End_headers, Wfile_write (map of_nat (not_found_body pth))], None)"
  by (simp add: send_def MockedResponseBody_len_def MockedResponseBody_load_def
      str_encode_ascii [OF not_found_body_ascii] Let_def del: str_of_nat.simps)

text \<open>
  Take a request whose path does not start with \<open>/mocker\<close>, whose method is one of the
  five of the table and whose path has no entry for that method, looked up as the
  string it is. When reading its body raises nothing, the body, if present, decodes as
  UTF-8 and the path does not contain \<open>@file://\<close>, \<open>retrieve_response\<close> returns a response
  with status 404, the header \<open>Content-Type: application/json\<close> and an inline body whose
  text is \<open>json.dumps\<close> of the message, and \<open>send\<close> writes that text. The text is the
  message with the path escaped as JSON; for a path of plain characters it is the path
  itself between the quotes.
\<close>

lemma unmatched_path_not_found:
  assumes "\<not> startswith pth (lit ''/mocker'')"
    and "response_map conf meth = Some table"
    and "table (Some pth) = None"
    and "read_content int_of self = Inr cont"
    and "decodable cont"
    and "\<not> str_in (lit ''@file://'') pth"
    and "list_all plain_char pth'"
  shows \<open>(\<exists>r registry'.
          retrieve_response int_of conf self registry pth meth = (Inr r, registry')
        \<and> response_code r = 404
        \<and> headers r = [[(lit ''Content-Type'', lit ''application/json'')]]
        \<and> body r = MockedBody \<lparr> file_definition = lit ''@file://'',
                                  content = not_found_body pth, is_file = False \<rparr>
        \<and> send fs r
            = ([Time_sleep 0, Send_response 404,
                Send_header (lit ''Content-Type'') (lit ''application/json''),
                Send_header (lit ''Content-length'') (str_of_nat (length (not_found_body pth))),
                End_headers, Wfile_write (map of_nat (not_found_body pth))], None))
     \<and> not_found_body pth
         = lit ''{"message": "path '' @ [39] @ concat (map esc_char pth) @ [39]
           @ lit '' not found"}''
     \<and> not_found_body pth'
         = lit ''{"message": "path '' @ [39] @ pth' @ [39] @ lit '' not found"}''\<close>
proof -
  obtain c where c: "CallsRegistry_add registry pth meth cont = Inr (registry @ [c])"
    using decodable_add [OF assms(5)] by blast
  let ?r = "MockedResponse (Some meth) (Some pth) (Some 404) (Some json_headers)
              (Some (not_found_body pth)) None"
  have r: "retrieve_response int_of conf self registry pth meth = (Inr ?r, registry @ [c])"
    using assms(1) assms(2) assms(3) assms(4) c by (simp add: retrieve_response_def)
  have 1: "\<exists>r registry'.
          retrieve_response int_of conf self registry pth meth = (Inr r, registry')
        \<and> response_code r = 404
        \<and> headers r = [[(lit ''Content-Type'', lit ''application/json'')]]
        \<and> body r = MockedBody \<lparr> file_definition = lit ''@file://'',
                                  content = not_found_body pth, is_file = False \<rparr>
        \<and> send fs r
            = ([Time_sleep 0, Send_response 404,
                Send_header (lit ''Content-Type'') (lit ''application/json''),
                Send_header (lit ''Content-length'') (str_of_nat (length (not_found_body pth))),
                End_headers, Wfile_write (map of_nat (not_found_body pth))], None)"
    unfolding r MockedResponse_not_found [OF assms(6)]
    by (simp add: send_not_found del: str_of_nat.simps)
  from 1 not_found_body_shape [of pth] not_found_body_plain [OF assms(7)]
  show ?thesis by blast
qed

text \<open>\<open>GET /nope\<close> against the empty configuration is such a request.\<close>

lemma unmatched_path_nope:
  \<open>\<not> startswith (lit ''/nope'') (lit ''/mocker'')
   \<and> response_map empty_configuration (lit ''GET'') = Some Map.empty
   \<and> (\<exists>r registry'.
          retrieve_response ascii_int empty_configuration
            \<lparr>self_command = lit ''GET'', self_path = lit ''/nope'',
             self_content_length = None, self_rfile = []\<rparr> [] (lit ''/nope'') (lit ''GET'')
            = (Inr r, registry')
        \<and> response_code r = 404
        \<and> headers r = [[(lit ''Content-Type'', lit ''application/json'')]]
        \<and> body r = MockedBody \<lparr> file_definition = lit ''@file://'',
                                  content = not_found_body (lit ''/nope''), is_file = False \<rparr>)
   \<and> not_found_body (lit ''/nope'') = lit ''{"message": "path '/nope' not found"}''\<close>
proof -
  let ?self = "\<lparr>self_command = lit ''GET'', self_path = lit ''/nope'',
             self_content_length = None, self_rfile = []\<rparr>"
  have h1: "\<not> startswith (lit ''/nope'') (lit ''/mocker'')" by (simp add: lit_def)
  have h2: "response_map empty_configuration (lit ''GET'') = Some Map.empty"
    by (simp add: response_map_def empty_configuration_def lit_def)
  have h3: "(Map.empty :: pystr option \<rightharpoonup> Response) (Some (lit ''/nope'')) = None" by simp
  have h4: "read_content ascii_int ?self = Inr None" by (simp add: read_content_def)
  have h5: "decodable None" by (simp add: decodable_def)
  have h6: "\<not> str_in (lit ''@file://'') (lit ''/nope'')" by (simp add: lit_def)
  have h7: "list_all plain_char (lit ''/nope'')" by (simp add: lit_def plain_char_def)
  have e: \<open>lit ''{"message": "path '' @ [39] @ lit ''/nope'' @ [39] @ lit '' not found"}''
           = lit ''{"message": "path '/nope' not found"}''\<close>
    by (simp add: lit_def)
  show ?thesis
    using h1 h2 e unmatched_path_not_found [OF h1 h2 h3 h4 h5 h6 h7, of "[]" no_files]
    by metis
qed

text \<open>
  Claim C8 says that every request to an unmatched path gets the 404 response whose body
  is the JSON message naming the path. Lines 234 to 236 build that text, but wrap it in
  \<open>MockedResponse\<close>, whose body looks for the marker \<open>@file://\<close>: for \<open>GET /@file://x\<close> the
  text of the message contains the marker and is taken as a file reference. The status
  404 and a \<open>Content-length\<close> of 4 are sent, \<open>load\<close> returns \<open>None\<close>, \<open>wfile.write\<close> raises and
  no body is written.
\<close>

theorem not_found_body_taken_as_file:
  \<open>\<not> startswith (lit ''/@file://x'') (lit ''/mocker'')
   \<and> response_map empty_configuration (lit ''GET'') = Some Map.empty
   \<and> (case fst (retrieve_response ascii_int empty_configuration
        \<lparr>self_command = lit ''GET'', self_path = lit ''/@file://x'',
         self_content_length = None, self_rfile = []\<rparr>
        [] (lit ''/@file://x'') (lit ''GET'')) of
         Inr r \<Rightarrow> response_code r = 404
                \<and> body r = MockedBody \<lparr> file_definition = lit ''@file://'',
                     content = lit ''{"message": "path '/@file://x' not found"}'',
                     is_file = True \<rparr>
                \<and> body_load no_files (body r) = Inr PyNone
       | Inl e \<Rightarrow> False)
   \<and> map_option fst (handle_one_request ascii_int empty_configuration no_files
        \<lparr>self_command = lit ''GET'', self_path = lit ''/@file://x'',
         self_content_length = None, self_rfile = []\<rparr> [])
      = Some ([Time_sleep 0, Send_response 404,
               Send_header (lit ''Content-Type'') (lit ''application/json''),
               Send_header (lit ''Content-length'') (lit ''4''), End_headers],
              Some TypeError)\<close>
  by (simp add: retrieve_response_def read_content_def CallsRegistry_add_def
      handle_one_request_def do_GET_def do_method_def
      response_map_def empty_configuration_def
      MockedResponse_def Response_init_def MockedResponseBody_init_def json_headers_def
      not_found_body_def json_string_def esc_char_def send_def MockedResponseBody_len_def
      MockedResponseBody_load_def no_files_def Let_def lit_def)

end
